theory Spec2Isabelle
  imports Complex_Main
begin

section \<open>JavaScript values as the dashboard sees them\<close>

text \<open>
  The dashboard reads the bodies of three HTTP responses as parsed JSON and tests their
  fields by truthiness. A value is therefore one of the JavaScript values that
  \<^verbatim>\<open>res.json()\<close> or a property read can give. Numbers are finite reals: the
  code only ever asks whether a number is zero.
\<close>

datatype jsval =
    JUndefined
  | JNull
  | JBool bool
  | JNum real
  | JStr string
  | JArr "jsval list"
  | JObj "(string \<times> jsval) list"

datatype js_error = TypeError | FetchError | JsonError

text \<open>ToBoolean of the language: what \<^verbatim>\<open>if (v)\<close>, \<^verbatim>\<open>v && w\<close> and \<^verbatim>\<open>v || w\<close> test.\<close>

fun truthy :: "jsval \<Rightarrow> bool" where
  "truthy JUndefined = False"
| "truthy JNull = False"
| "truthy (JBool b) = b"
| "truthy (JNum x) = (x \<noteq> 0)"
| "truthy (JStr s) = (s \<noteq> [])"
| "truthy (JArr _) = True"
| "truthy (JObj _) = True"

text \<open>
  A property read \<^verbatim>\<open>data.name\<close>: a TypeError on \<^verbatim>\<open>null\<close> and
  \<^verbatim>\<open>undefined\<close>, the stored value on an object that has the key, and
  \<^verbatim>\<open>undefined\<close> otherwise (none of the names the dashboard reads is a
  prototype property of a string, number, boolean or array). An object is the list of its
  own properties; a name listed twice is read at its first entry.
\<close>

fun get_prop :: "jsval \<Rightarrow> string \<Rightarrow> js_error + jsval" where
  "get_prop JUndefined name = Inl TypeError"
| "get_prop JNull name = Inl TypeError"
| "get_prop (JObj fs) name = Inr (case map_of fs name of None \<Rightarrow> JUndefined | Some v \<Rightarrow> v)"
| "get_prop v name = Inr JUndefined"

section \<open>HTTP responses\<close>

text \<open>
  What one \<^verbatim>\<open>fetch\<close> brings back: the promise rejects (no network), or there is
  a response with its \<^verbatim>\<open>ok\<close> flag and a body that \<^verbatim>\<open>res.json()\<close>
  parses (\<open>Some\<close>) or rejects (\<open>None\<close>).
\<close>

datatype response = FetchRejected | Response bool "jsval option"

text \<open>\<^verbatim>\<open>const res = await fetch(url); const data = await res.json();\<close>\<close>

definition json :: "response \<Rightarrow> js_error + jsval" where
  "json r = (case r of
       FetchRejected \<Rightarrow> Inl FetchError
     | Response ok None \<Rightarrow> Inl JsonError
     | Response ok (Some data) \<Rightarrow> Inr data)"

text \<open>\<^verbatim>\<open>a || b\<close> where evaluating either side may throw.\<close>

definition or_else :: "js_error + jsval \<Rightarrow> js_error + jsval \<Rightarrow> js_error + jsval" where
  "or_else a b = (case a of Inl e \<Rightarrow> Inl e | Inr v \<Rightarrow> if truthy v then Inr v else b)"

section \<open>Reverse geocoding: \<^verbatim>\<open>getAddressFromCoords\<close>\<close>

record address =
  city :: jsval
  state :: jsval

definition city_of :: "jsval \<Rightarrow> js_error + jsval" where
  "city_of data =
     or_else (or_else (or_else (get_prop data ''city'') (get_prop data ''locality''))
                (get_prop data ''principalSubdivision''))
       (Inr (JStr ''Unknown Location''))"

definition state_of :: "jsval \<Rightarrow> js_error + jsval" where
  "state_of data =
     or_else (or_else (get_prop data ''principalSubdivision'') (get_prop data ''countryName''))
       (Inr (JStr []))"

text \<open>
  The value the function resolves to, given what the geocoder's endpoint brought back.
  Everything in the \<^verbatim>\<open>try\<close> block that throws ends in the \<^verbatim>\<open>catch\<close>.
\<close>

definition getAddressFromCoords :: "response \<Rightarrow> address" where
  "getAddressFromCoords r =
     (case json r of
        Inl e \<Rightarrow> \<lparr>city = JStr ''Unknown'', state = JStr []\<rparr>
      | Inr data \<Rightarrow>
          (case city_of data of
             Inl e \<Rightarrow> \<lparr>city = JStr ''Unknown'', state = JStr []\<rparr>
           | Inr c \<Rightarrow>
               (case state_of data of
                  Inl e \<Rightarrow> \<lparr>city = JStr ''Unknown'', state = JStr []\<rparr>
                | Inr st \<Rightarrow> \<lparr>city = c, state = st\<rparr>)))"

section \<open>The dashboard's state\<close>

text \<open>
  A log line is \<^verbatim>\<open>> ${new Date().toLocaleTimeString()} - ${msg}\<close>: it is kept as
  the clock reading (milliseconds) and the message. The one message built from a value,
  \<^verbatim>\<open>Environment analysis for ${city} complete.\<close>, keeps the value.
\<close>

datatype log_msg = Line string | EnvironmentLine jsval

datatype request =
    IpLookup
  | ReverseGeocode jsval jsval
  | InsightsGet jsval jsval jsval jsval

text \<open>
  The seven \<^verbatim>\<open>useState\<close> cells of the component, and the requests it has sent so
  far. The types of the forecast and of a region's statistics are parameters.
\<close>

record ('a, 'r) dashboard =
  analysis :: "'a option"
  regions :: "'r list"
  isAnalyzing :: bool
  logs :: "(nat \<times> log_msg) list"
  localInsights :: jsval
  locationStatus :: string
  locationError :: "string option"
  requests :: "request list"

definition addLog :: "nat \<Rightarrow> log_msg \<Rightarrow> ('a, 'r) dashboard \<Rightarrow> ('a, 'r) dashboard" where
  "addLog t msg s = s\<lparr>logs := logs s @ [(t, msg)]\<rparr>"

section \<open>The environment\<close>

text \<open>
  How \<^verbatim>\<open>AIService\<close> answers one run: after how many milliseconds each of its two
  promises settles, and with what (\<open>None\<close>: the promise rejects).
\<close>

record ('a, 'r) ai_service =
  forecast_delay :: nat
  forecast :: "'a option"
  regional_delay :: nat
  regional :: "'r list option"

text \<open>
  How the browser and the three endpoints answer one location attempt.
\<close>

datatype device = NoGeolocation | Position real real | PositionError

record network =
  device :: device
  device_delay :: nat
  ip_response :: response
  ip_delay :: nat
  geocode_response :: response
  geocode_delay :: nat
  insights_response :: response
  insights_delay :: nat

section \<open>Tasks of the event loop\<close>

text \<open>
  Each function of the component runs up to its next \<^verbatim>\<open>await\<close>, timer or callback;
  what runs later is a task with the time at which it is due.
\<close>

datatype ('a, 'r) task =
    RunAnalysis "('a, 'r) ai_service"
  | LocateUser network
  | LogTimer string
  | ForecastSettled "('a, 'r) ai_service"
  | RegionalSettled 'a "'r list option"
  | PositionSuccess real real network
  | PositionFailure network
  | IpSettled network
  | GeocodeSettled jsval jsval network
  | InsightsSettled jsval network

type_synonym ('a, 'r) sched = "(nat \<times> ('a, 'r) task) list"

section \<open>The location pipeline\<close>

definition fetchLocalInsights ::
  "jsval \<Rightarrow> jsval \<Rightarrow> network \<Rightarrow> nat \<Rightarrow> ('a, 'r) dashboard \<Rightarrow> ('a, 'r) sched \<times> ('a, 'r) dashboard" where
  "fetchLocalInsights lat lon env t s =
     ([(t + geocode_delay env, GeocodeSettled lat lon env)],
      s\<lparr>locationStatus := ''Analyzing local environment...'',
        requests := requests s @ [ReverseGeocode lat lon]\<rparr>)"

definition insights_failed :: "('a, 'r) dashboard \<Rightarrow> ('a, 'r) dashboard" where
  "insights_failed s =
     s\<lparr>locationStatus := ''Data Unavailable'',
       locationError := Some ''Failed to fetch local insights.''\<rparr>"

text \<open>\<^verbatim>\<open>fetchLocalInsights\<close> after \<^verbatim>\<open>await getAddressFromCoords(lat, lon)\<close>.\<close>

definition fetchLocalInsights_located ::
  "jsval \<Rightarrow> jsval \<Rightarrow> network \<Rightarrow> nat \<Rightarrow> ('a, 'r) dashboard \<Rightarrow> ('a, 'r) sched \<times> ('a, 'r) dashboard" where
  "fetchLocalInsights_located lat lon env t s =
     (let a = getAddressFromCoords (geocode_response env) in
      if truthy (city a) \<and> city a \<noteq> JStr ''Unknown'' then
        ([(t + insights_delay env, InsightsSettled (city a) env)],
         s\<lparr>requests := requests s @ [InsightsGet lat lon (city a) (state a)]\<rparr>)
      else ([], s\<lparr>locationStatus := ''Could not determine city name.''\<rparr>))"

text \<open>\<^verbatim>\<open>fetchLocalInsights\<close> after the \<^verbatim>\<open>fetch\<close> of the insights has settled.\<close>

definition fetchLocalInsights_fetched ::
  "jsval \<Rightarrow> network \<Rightarrow> nat \<Rightarrow> ('a, 'r) dashboard \<Rightarrow> ('a, 'r) sched \<times> ('a, 'r) dashboard" where
  "fetchLocalInsights_fetched c env t s =
     (case insights_response env of
        FetchRejected \<Rightarrow> ([], insights_failed s)
      | Response ok body \<Rightarrow>
          if \<not> ok then ([], insights_failed s)
          else (case body of
                  None \<Rightarrow> ([], insights_failed s)
                | Some data \<Rightarrow>
                    ([], addLog t (EnvironmentLine c)
                           (s\<lparr>localInsights := data, locationStatus := ''Live Data Active''\<rparr>))))"

definition fetchIpLocation ::
  "network \<Rightarrow> nat \<Rightarrow> ('a, 'r) dashboard \<Rightarrow> ('a, 'r) sched \<times> ('a, 'r) dashboard" where
  "fetchIpLocation env t s =
     ([(t + ip_delay env, IpSettled env)],
      s\<lparr>locationStatus := ''Estimating location via IP...'',
        requests := requests s @ [IpLookup]\<rparr>)"

definition ip_failed :: "('a, 'r) dashboard \<Rightarrow> ('a, 'r) dashboard" where
  "ip_failed s =
     s\<lparr>locationError :=
         Some (''Automatic location failed. Please click '' @ [CHR 0x27] @ ''Retry Location''
               @ [CHR 0x27] @ ''.''),
       locationStatus := ''Location Unknown''\<rparr>"

text \<open>\<^verbatim>\<open>fetchIpLocation\<close> after its \<^verbatim>\<open>fetch\<close> and \<^verbatim>\<open>res.json()\<close>.\<close>

definition fetchIpLocation_fetched ::
  "network \<Rightarrow> nat \<Rightarrow> ('a, 'r) dashboard \<Rightarrow> ('a, 'r) sched \<times> ('a, 'r) dashboard" where
  "fetchIpLocation_fetched env t s =
     (case json (ip_response env) of
        Inl e \<Rightarrow> ([], ip_failed s)
      | Inr data \<Rightarrow>
          (case get_prop data ''latitude'' of
             Inl e \<Rightarrow> ([], ip_failed s)
           | Inr lat \<Rightarrow>
               if truthy lat then
                 (case get_prop data ''longitude'' of
                    Inl e \<Rightarrow> ([], ip_failed s)
                  | Inr lon \<Rightarrow>
                      if truthy lon then fetchLocalInsights lat lon env t s
                      else ([], ip_failed s))
               else ([], ip_failed s)))"

definition locateUser ::
  "network \<Rightarrow> nat \<Rightarrow> ('a, 'r) dashboard \<Rightarrow> ('a, 'r) sched \<times> ('a, 'r) dashboard" where
  "locateUser env t s =
     (let s1 = s\<lparr>locationError := None, locationStatus := ''Detecting location...''\<rparr> in
      case device env of
        NoGeolocation \<Rightarrow> fetchIpLocation env t s1
      | Position lat lon \<Rightarrow> ([(t + device_delay env, PositionSuccess lat lon env)], s1)
      | PositionError \<Rightarrow> ([(t + device_delay env, PositionFailure env)], s1))"

section \<open>The analysis run\<close>

definition runAnalysis ::
  "('a, 'r) ai_service \<Rightarrow> nat \<Rightarrow> ('a, 'r) dashboard \<Rightarrow> ('a, 'r) sched \<times> ('a, 'r) dashboard" where
  "runAnalysis ai t s =
     ([(t + 500, LogTimer ''Fetching real-time inventory data...''),
       (t + 900, LogTimer ''Aggregating community symptom reports...''),
       (t + 1300, LogTimer ''Running LLaMA-3 reasoning model...''),
       (t + forecast_delay ai, ForecastSettled ai)],
      addLog t (Line ''Initializing AI Agent...'') (s\<lparr>isAnalyzing := True, logs := []\<rparr>))"

text \<open>
  \<^verbatim>\<open>runAnalysis\<close> after \<^verbatim>\<open>await AIService.runAnalysis()\<close>: a rejection ends
  the function; otherwise \<^verbatim>\<open>AIService.getRegionalRisk()\<close> is called.
\<close>

definition runAnalysis_forecast ::
  "('a, 'r) ai_service \<Rightarrow> nat \<Rightarrow> ('a, 'r) dashboard \<Rightarrow> ('a, 'r) sched \<times> ('a, 'r) dashboard" where
  "runAnalysis_forecast ai t s =
     (case forecast ai of
        None \<Rightarrow> ([], s)
      | Some result \<Rightarrow> ([(t + regional_delay ai, RegionalSettled result (regional ai))], s))"

text \<open>\<^verbatim>\<open>runAnalysis\<close> after \<^verbatim>\<open>await AIService.getRegionalRisk()\<close>.\<close>

definition runAnalysis_regional ::
  "'a \<Rightarrow> 'r list option \<Rightarrow> nat \<Rightarrow> ('a, 'r) dashboard \<Rightarrow> ('a, 'r) sched \<times> ('a, 'r) dashboard" where
  "runAnalysis_regional result rd t s =
     (case rd of
        None \<Rightarrow> ([], s)
      | Some regionData \<Rightarrow>
          ([], addLog t (Line ''Analysis complete. Insights generated.'')
                 (s\<lparr>analysis := Some result, regions := regionData, isAnalyzing := False\<rparr>)))"

section \<open>The event loop\<close>

fun exec :: "('a, 'r) task \<Rightarrow> nat \<Rightarrow> ('a, 'r) dashboard \<Rightarrow> ('a, 'r) sched \<times> ('a, 'r) dashboard" where
  "exec (RunAnalysis ai) t s = runAnalysis ai t s"
| "exec (LocateUser env) t s = locateUser env t s"
| "exec (LogTimer msg) t s = ([], addLog t (Line msg) s)"
| "exec (ForecastSettled ai) t s = runAnalysis_forecast ai t s"
| "exec (RegionalSettled result rd) t s = runAnalysis_regional result rd t s"
| "exec (PositionSuccess lat lon env) t s = fetchLocalInsights (JNum lat) (JNum lon) env t s"
| "exec (PositionFailure env) t s = fetchIpLocation env t s"
| "exec (IpSettled env) t s = fetchIpLocation_fetched env t s"
| "exec (GeocodeSettled lat lon env) t s = fetchLocalInsights_located lat lon env t s"
| "exec (InsightsSettled c env) t s = fetchLocalInsights_fetched c env t s"

text \<open>
  Pending tasks are kept in the order in which they will run: by due time, and among
  tasks due at the same time in the order in which they were registered.
\<close>

fun enqueue :: "nat \<times> ('a, 'r) task \<Rightarrow> ('a, 'r) sched \<Rightarrow> ('a, 'r) sched" where
  "enqueue x [] = [x]"
| "enqueue x (y # q) = (if fst x < fst y then x # y # q else y # enqueue x q)"

fun schedule :: "('a, 'r) sched \<Rightarrow> ('a, 'r) sched \<Rightarrow> ('a, 'r) sched" where
  "schedule [] q = q"
| "schedule (x # xs) q = schedule xs (enqueue x q)"

fun weight :: "('a, 'r) task \<Rightarrow> nat" where
  "weight (RunAnalysis ai) = 6"
| "weight (LocateUser env) = 5"
| "weight (LogTimer msg) = 1"
| "weight (ForecastSettled ai) = 2"
| "weight (RegionalSettled result rd) = 1"
| "weight (PositionSuccess lat lon env) = 3"
| "weight (PositionFailure env) = 4"
| "weight (IpSettled env) = 3"
| "weight (GeocodeSettled lat lon env) = 2"
| "weight (InsightsSettled c env) = 1"

fun cost :: "('a, 'r) sched \<Rightarrow> nat" where
  "cost [] = 0"
| "cost (x # q) = weight (snd x) + cost q"

text \<open>Run every pending task, and the tasks they register, until none is left.\<close>

function run_loop :: "('a, 'r) sched \<Rightarrow> ('a, 'r) dashboard \<Rightarrow> ('a, 'r) dashboard" where
  "run_loop [] s = s"
| "run_loop ((t, k) # q) s = run_loop (schedule (fst (exec k t s)) q) (snd (exec k t s))"
  by pat_completeness auto
termination
proof (relation "measure (\<lambda>(q, s). cost q)")
  show "wf (measure (\<lambda>(q :: ('a, 'r) sched, s :: ('a, 'r) dashboard). cost q))"
    by simp
next
  fix t :: nat and k :: "('a, 'r) task" and q :: "('a, 'r) sched" and s :: "('a, 'r) dashboard"
  have enq: "cost (enqueue x p) = weight (snd x) + cost p" for x and p :: "('a, 'r) sched"
    by (induction p) auto
  have sch: "cost (schedule xs p) = cost xs + cost p" for xs p :: "('a, 'r) sched"
    by (induction xs arbitrary: p) (auto simp: enq)
  have "cost (fst (exec k t s)) < weight k"
    by (cases k)
       (auto simp: runAnalysis_def locateUser_def runAnalysis_forecast_def
          runAnalysis_regional_def fetchLocalInsights_def fetchIpLocation_def
          fetchIpLocation_fetched_def fetchLocalInsights_located_def
          fetchLocalInsights_fetched_def Let_def
          split: option.splits device.splits sum.splits response.splits)
  then show "((schedule (fst (exec k t s)) q, snd (exec k t s)), (t, k) # q, s)
               \<in> measure (\<lambda>(q, s). cost q)"
    by (simp add: sch)
qed

section \<open>One call, run until nothing is pending\<close>

text \<open>The values of the \<^verbatim>\<open>useState\<close> calls when the component mounts.\<close>

definition initial :: "('a, 'r) dashboard" where
  "initial = \<lparr>analysis = None, regions = [], isAnalyzing = False, logs = [],
     localInsights = JNull, locationStatus = ''Waiting for location...'',
     locationError = None, requests = []\<rparr>"

definition finish :: "('a, 'r) sched \<times> ('a, 'r) dashboard \<Rightarrow> ('a, 'r) dashboard" where
  "finish p = run_loop (fst p) (snd p)"

text \<open>\<^verbatim>\<open>locateUser()\<close> called at time \<open>t\<close> with nothing else pending.\<close>

definition resolve :: "network \<Rightarrow> nat \<Rightarrow> ('a, 'r) dashboard \<Rightarrow> ('a, 'r) dashboard" where
  "resolve env t s = run_loop [(t, LocateUser env)] s"

text \<open>\<^verbatim>\<open>runAnalysis()\<close> called at time \<open>t\<close> with nothing else pending.\<close>

definition run :: "('a, 'r) ai_service \<Rightarrow> nat \<Rightarrow> ('a, 'r) dashboard \<Rightarrow> ('a, 'r) dashboard" where
  "run ai t s = run_loop [(t, RunAnalysis ai)] s"

section \<open>The field selection policy in the specification's words\<close>

text \<open>
  A field of a response body, \<^verbatim>\<open>undefined\<close> when the body has no such field.
\<close>

definition field :: "jsval \<Rightarrow> string \<Rightarrow> jsval" where
  "field data name =
     (case data of
        JObj fs \<Rightarrow> (case map_of fs name of None \<Rightarrow> JUndefined | Some v \<Rightarrow> v)
      | _ \<Rightarrow> JUndefined)"

text \<open>
  ``Priority order, first non-empty wins'': the first candidate that is not empty, and the
  fallback when all are. A candidate counts as empty when the language takes it for
  false: a field that is absent, \<^verbatim>\<open>null\<close>, the empty string, zero or
  \<^verbatim>\<open>false\<close>.
\<close>

definition first_non_empty :: "jsval list \<Rightarrow> jsval \<Rightarrow> jsval" where
  "first_non_empty candidates fallback =
     (case find truthy candidates of Some v \<Rightarrow> v | None \<Rightarrow> fallback)"

section \<open>What an attempt obtains\<close>

text \<open>
  The coordinates that the address lookup by IP brings, when \<^verbatim>\<open>fetchIpLocation\<close>
  accepts them: both fields of the body pass its test \<^verbatim>\<open>data.latitude && data.longitude\<close>.
\<close>

definition network_position :: "response \<Rightarrow> (jsval \<times> jsval) option" where
  "network_position r =
     (case json r of
        Inl e \<Rightarrow> None
      | Inr data \<Rightarrow>
          if data = JNull \<or> data = JUndefined then None
          else if truthy (field data ''latitude'') \<and> truthy (field data ''longitude'')
               then Some (field data ''latitude'', field data ''longitude'')
               else None)"

text \<open>The position an attempt ends up with: the device's, else the network's.\<close>

definition obtained_position :: "network \<Rightarrow> (jsval \<times> jsval) option" where
  "obtained_position env =
     (case device env of
        Position la lo \<Rightarrow> Some (JNum la, JNum lo)
      | _ \<Rightarrow> network_position (ip_response env))"

text \<open>When that position arrives, and the state the attempt has reached by then.\<close>

definition located_at :: "network \<Rightarrow> nat \<Rightarrow> nat" where
  "located_at env t =
     (case device env of
        NoGeolocation \<Rightarrow> t + ip_delay env
      | Position la lo \<Rightarrow> t + device_delay env
      | PositionError \<Rightarrow> t + device_delay env + ip_delay env)"

definition locating :: "network \<Rightarrow> ('a, 'r) dashboard \<Rightarrow> ('a, 'r) dashboard" where
  "locating env s =
     (case device env of
        Position la lo \<Rightarrow> s\<lparr>locationError := None, locationStatus := ''Detecting location...''\<rparr>
      | _ \<Rightarrow> s\<lparr>locationError := None, locationStatus := ''Estimating location via IP...'',
               requests := requests s @ [IpLookup]\<rparr>)"

text \<open>The body of a successful insights response.\<close>

definition insights_data :: "response \<Rightarrow> jsval option" where
  "insights_data r =
     (case r of FetchRejected \<Rightarrow> None | Response ok body \<Rightarrow> if ok then body else None)"

text \<open>The guard of \<^verbatim>\<open>fetchLocalInsights\<close>: \<^verbatim>\<open>city && city !== "Unknown"\<close>.\<close>

definition usable :: "jsval \<Rightarrow> bool" where
  "usable c = (truthy c \<and> c \<noteq> JStr ''Unknown'')"

text \<open>How many times the insights endpoint has been called.\<close>

definition insights_calls :: "request list \<Rightarrow> nat" where
  "insights_calls rs =
     length (filter (\<lambda>r. case r of InsightsGet la lo c st \<Rightarrow> True | _ \<Rightarrow> False) rs)"

section \<open>What a pending run will publish\<close>

text \<open>
  What a pending task of an analysis run will publish, and when: the forecast and the
  regions that \<^verbatim>\<open>setAnalysis\<close> and \<^verbatim>\<open>setRegions\<close> will store once the
  second call of the run has resolved. A run in which a call rejects publishes nothing.
\<close>

fun completion :: "nat \<times> ('a, 'r) task \<Rightarrow> (nat \<times> 'a \<times> 'r list) option" where
  "completion (t, RunAnalysis ai) =
     (case forecast ai of
        None \<Rightarrow> None
      | Some a \<Rightarrow>
          (case regional ai of
             None \<Rightarrow> None
           | Some rs \<Rightarrow> Some (t + forecast_delay ai + regional_delay ai, a, rs)))"
| "completion (t, ForecastSettled ai) =
     (case forecast ai of
        None \<Rightarrow> None
      | Some a \<Rightarrow>
          (case regional ai of
             None \<Rightarrow> None
           | Some rs \<Rightarrow> Some (t + regional_delay ai, a, rs)))"
| "completion (t, RegionalSettled a rd) =
     (case rd of None \<Rightarrow> None | Some rs \<Rightarrow> Some (t, a, rs))"
| "completion (t, k) = None"

definition pending :: "('a, 'r) sched \<Rightarrow> (nat \<times> 'a \<times> 'r list) set" where
  "pending q = {w. \<exists>x \<in> set q. completion x = Some w}"

section \<open>Example environments\<close>

text \<open>
  The device gives no position; the address lookup places the user in Bengaluru, the
  geocoder names the city and the backend answers.
\<close>

definition bengaluru :: network where
  "bengaluru =
     \<lparr>device = PositionError, device_delay = 5000,
      ip_response = Response True
        (Some (JObj [(''latitude'', JNum 12.9716), (''longitude'', JNum 77.5946)])),
      ip_delay = 120,
      geocode_response = Response True
        (Some (JObj [(''city'', JStr ''Bengaluru''),
                     (''principalSubdivision'', JStr ''Karnataka'')])),
      geocode_delay = 80,
      insights_response = Response True
        (Some (JObj [(''location'',
                 JObj [(''city'', JStr ''Bengaluru''), (''state'', JStr ''Karnataka'')])])),
      insights_delay = 60\<rparr>"

text \<open>The dashboard as it is mounted, with numbers for forecasts and regions.\<close>

definition fresh :: "(nat, nat) dashboard" where
  "fresh = initial"

text \<open>A geocoder answer for a point at sea: every name is the empty string.\<close>

definition at_sea :: response where
  "at_sea = Response True
     (Some (JObj [(''city'', JStr []), (''locality'', JStr []),
                  (''principalSubdivision'', JStr []), (''countryName'', JStr [])]))"

text \<open>A geocoder answer whose body is the JSON text \<^verbatim>\<open>null\<close>.\<close>

definition null_body :: response where
  "null_body = Response True (Some JNull)"

text \<open>An address lookup that places the user on the equator.\<close>

definition on_equator :: response where
  "on_equator = Response True
     (Some (JObj [(''latitude'', JNum 0), (''longitude'', JNum 36.8219)]))"

text \<open>A service that answers after two seconds, and one that answers at once.\<close>

definition slow_service :: "(nat, nat) ai_service" where
  "slow_service =
     \<lparr>forecast_delay = 2000, forecast = Some 470, regional_delay = 1000, regional = Some [1, 2]\<rparr>"

definition fast_service :: "(nat, nat) ai_service" where
  "fast_service =
     \<lparr>forecast_delay = 200, forecast = Some 300, regional_delay = 100, regional = Some [3]\<rparr>"

section \<open>The location pipeline, call by call\<close>

lemma get_prop_field:
  "data \<noteq> JNull \<Longrightarrow> data \<noteq> JUndefined \<Longrightarrow> get_prop data name = Inr (field data name)"
  by (cases data) (simp_all add: field_def)

lemma fetchIpLocation_fetched_eq:
  "fetchIpLocation_fetched env t s =
     (case network_position (ip_response env) of
        None \<Rightarrow> ([], ip_failed s)
      | Some (lat, lon) \<Rightarrow> fetchLocalInsights lat lon env t s)"
  by (auto simp: fetchIpLocation_fetched_def network_position_def get_prop_field
        split: sum.splits)

lemma fetchLocalInsights_fetched_eq:
  "fetchLocalInsights_fetched c env t s =
     (case insights_data (insights_response env) of
        None \<Rightarrow> ([], insights_failed s)
      | Some data \<Rightarrow>
          ([], addLog t (EnvironmentLine c)
                 (s\<lparr>localInsights := data, locationStatus := ''Live Data Active''\<rparr>)))"
  by (auto simp: fetchLocalInsights_fetched_def insights_data_def
        split: response.splits option.splits)

text \<open>
  \<^verbatim>\<open>fetchLocalInsights\<close> from its call to its end, when nothing else runs in between.
\<close>

lemma finish_fetchLocalInsights:
  "finish (fetchLocalInsights lat lon env t s) =
     (let a = getAddressFromCoords (geocode_response env);
          s1 = s\<lparr>locationStatus := ''Analyzing local environment...'',
                 requests := requests s @ [ReverseGeocode lat lon]\<rparr>
      in if usable (city a) then
           (case insights_data (insights_response env) of
              None \<Rightarrow>
                insights_failed
                  (s1\<lparr>requests := requests s1 @ [InsightsGet lat lon (city a) (state a)]\<rparr>)
            | Some data \<Rightarrow>
                addLog (t + geocode_delay env + insights_delay env) (EnvironmentLine (city a))
                  (s1\<lparr>requests := requests s1 @ [InsightsGet lat lon (city a) (state a)],
                      localInsights := data, locationStatus := ''Live Data Active''\<rparr>))
         else s1\<lparr>locationStatus := ''Could not determine city name.''\<rparr>)"
  by (simp add: finish_def fetchLocalInsights_def fetchLocalInsights_located_def usable_def
        fetchLocalInsights_fetched_eq Let_def split: option.splits)

text \<open>\<^verbatim>\<open>locateUser\<close> from its call to its end.\<close>

lemma resolve_eq:
  "resolve env t s =
     (case obtained_position env of
        None \<Rightarrow> ip_failed (locating env s)
      | Some (lat, lon) \<Rightarrow>
          finish (fetchLocalInsights lat lon env (located_at env t) (locating env s)))"
  by (cases "device env")
     (simp_all add: resolve_def locateUser_def fetchIpLocation_def fetchIpLocation_fetched_eq
        obtained_position_def located_at_def locating_def finish_def fetchLocalInsights_def
        split: option.splits)

lemma locateUser_clears: "locationError (snd (locateUser env t s)) = None"
  by (cases "device env") (simp_all add: locateUser_def fetchIpLocation_def)

lemmas run_defs =
  run_def runAnalysis_def runAnalysis_forecast_def runAnalysis_regional_def addLog_def

text \<open>An analysis run touches nothing that the location pipeline owns.\<close>

lemma run_keeps_location:
  "locationError (run ai t s) = locationError s \<and> locationStatus (run ai t s) = locationStatus s
   \<and> localInsights (run ai t s) = localInsights s \<and> requests (run ai t s) = requests s"
  by (auto simp: run_defs split: option.splits)

section \<open>The order in which the event loop runs its tasks\<close>

lemma set_enqueue: "set (enqueue x q) = insert x (set q)"
  by (induction q) auto

lemma set_schedule: "set (schedule xs q) = set xs \<union> set q"
  by (induction xs arbitrary: q) (auto simp: set_enqueue)

lemma sorted_enqueue: "sorted (map fst q) \<Longrightarrow> sorted (map fst (enqueue x q))"
  by (induction q) (auto simp: set_enqueue)

lemma sorted_schedule: "sorted (map fst q) \<Longrightarrow> sorted (map fst (schedule xs q))"
  by (induction xs arbitrary: q) (auto simp: sorted_enqueue)

lemma pending_schedule: "pending (schedule xs q) = pending xs \<union> pending q"
  by (auto simp: pending_def set_schedule)

lemma pending_Cons: "pending (x # q) = pending [x] \<union> pending q"
  by (auto simp: pending_def)

lemma completion_due: "completion (t, k) = Some (c, w) \<Longrightarrow> t \<le> c"
  by (cases k) (auto split: option.splits)

text \<open>
  A step of a run hands what it will publish on to the task it registers; only the last
  step, after the second call has resolved, publishes.
\<close>

lemma pending_exec:
  "pending (fst (exec k t s)) =
     (if \<exists>a rd. k = RegionalSettled a rd then {} else pending [(t, k)])"
  by (cases k)
     (auto simp: pending_def runAnalysis_def locateUser_def runAnalysis_forecast_def
        runAnalysis_regional_def fetchLocalInsights_def fetchIpLocation_def
        fetchIpLocation_fetched_def fetchLocalInsights_located_def
        fetchLocalInsights_fetched_def Let_def
        split: option.splits device.splits sum.splits response.splits)

lemma published_exec:
  "(analysis (snd (exec k t s)), regions (snd (exec k t s))) =
     (case completion (t, k) of
        None \<Rightarrow> (analysis s, regions s)
      | Some (c, a, rs) \<Rightarrow>
          (case k of RegionalSettled a' rd \<Rightarrow> (Some a, rs) | _ \<Rightarrow> (analysis s, regions s)))"
  by (cases k)
     (auto simp: runAnalysis_def locateUser_def runAnalysis_forecast_def
        runAnalysis_regional_def fetchLocalInsights_def fetchIpLocation_def
        fetchIpLocation_fetched_def fetchLocalInsights_located_def
        fetchLocalInsights_fetched_def Let_def addLog_def insights_failed_def ip_failed_def
        split: option.splits device.splits sum.splits response.splits)

lemma nothing_pending:
  "pending q = {} \<Longrightarrow>
     analysis (run_loop q s) = analysis s \<and> regions (run_loop q s) = regions s"
proof (induction q s rule: run_loop.induct)
  case (1 s)
  show ?case by simp
next
  case (2 t k q s)
  have rest: "pending q = {}"
    using "2.prems" by (auto simp: pending_def)
  have none: "completion (t, k) = None"
  proof (cases "completion (t, k)")
    case (Some w)
    then have "w \<in> pending ((t, k) # q)"
      by (simp add: pending_def)
    with "2.prems" show ?thesis
      by simp
  qed simp
  have "pending [(t, k)] = {}"
    using none by (simp add: pending_def)
  then have "pending (fst (exec k t s)) = {}"
    by (simp add: pending_exec)
  then have "pending (schedule (fst (exec k t s)) q) = {}"
    by (simp add: pending_schedule rest)
  from "2.IH" [OF this] published_exec [of k t s] none show ?case
    by simp
qed

text \<open>
  Whatever is pending, the run whose second call resolves last is the one whose forecast
  and regions stay in the state.
\<close>

lemma last_completion_wins:
  assumes "sorted (map fst q)"
    and "(c, a, rs) \<in> pending q"
    and "\<forall>(c', w) \<in> pending q. c' < c \<or> (c', w) = (c, a, rs)"
  shows "analysis (run_loop q s) = Some a \<and> regions (run_loop q s) = rs"
  using assms
proof (induction q s rule: run_loop.induct)
  case (1 s)
  then show ?case by (simp add: pending_def)
next
  case (2 t k q s)
  let ?q' = "schedule (fst (exec k t s)) q"
  let ?s' = "snd (exec k t s)"
  have sorted': "sorted (map fst ?q')"
    using "2.prems"(1) by (simp add: sorted_schedule)
  have pend: "pending ((t, k) # q) = pending [(t, k)] \<union> pending q"
    by (rule pending_Cons)
  show ?case
  proof (cases "\<exists>a' rd. k = RegionalSettled a' rd")
    case False
    then have "pending (fst (exec k t s)) = pending [(t, k)]"
      by (simp add: pending_exec)
    then have "pending ?q' = pending ((t, k) # q)"
      by (simp add: pending_schedule pend)
    with "2.IH" [OF sorted'] "2.prems" show ?thesis
      by simp
  next
    case True
    then obtain a' rd where k: "k = RegionalSettled a' rd"
      by blast
    have q': "?q' = q"
      by (simp add: k runAnalysis_regional_def split: option.splits)
    have sorted_q: "sorted (map fst q)"
      using "2.prems"(1) by simp
    have sub: "pending q \<subseteq> pending ((t, k) # q)"
      by (auto simp: pend)
    show ?thesis
    proof (cases "(c, a, rs) \<in> pending q")
      case True
      have "\<forall>(c', w) \<in> pending q. c' < c \<or> (c', w) = (c, a, rs)"
        using "2.prems"(3) sub by blast
      with "2.IH" [unfolded q', OF sorted_q True] show ?thesis
        by (simp add: q')
    next
      case False
      with "2.prems"(2) have here: "completion (t, k) = Some (c, a, rs)"
        by (auto simp: pend pending_def)
      then have tc: "t = c"
        by (simp add: k split: option.splits)
      have "pending q = {}"
      proof (rule ccontr)
        assume "pending q \<noteq> {}"
        then obtain c' w where in_q: "(c', w) \<in> pending q"
          by auto
        then obtain t' k' where x: "(t', k') \<in> set q" "completion (t', k') = Some (c', w)"
          by (auto simp: pending_def)
        have "t \<le> t'"
          using "2.prems"(1) x(1) by force
        moreover have "t' \<le> c'"
          using x(2) completion_due by blast
        moreover have "c' < c \<or> (c', w) = (c, a, rs)"
          using "2.prems"(3) in_q sub by blast
        ultimately show False
          using tc False in_q by auto
      qed
      moreover have "analysis ?s' = Some a \<and> regions ?s' = rs"
        using published_exec [of k t s] here unfolding k by simp
      ultimately show ?thesis
        using nothing_pending [of q ?s'] by (simp add: q')
    qed
  qed
qed

section \<open>Claims about reverse geocoding\<close>

text \<open>
  C2. For every answer of the reverse geocoder, \<^verbatim>\<open>getAddressFromCoords\<close> takes as
  city the first non-empty of \<^verbatim>\<open>city\<close>, \<^verbatim>\<open>locality\<close>,
  \<^verbatim>\<open>principalSubdivision\<close> and otherwise the text \<^verbatim>\<open>Unknown Location\<close>, and as
  region the first non-empty of \<^verbatim>\<open>principalSubdivision\<close>, \<^verbatim>\<open>countryName\<close> and
  otherwise the empty string. When the request or the parsing of its body throws
  (a body that is \<^verbatim>\<open>null\<close> makes the first field read throw), it returns the city
  \<^verbatim>\<open>Unknown\<close> and the empty region, and nothing is thrown to the caller.
\<close>

theorem getAddressFromCoords_policy:
  "getAddressFromCoords r =
     (case json r of
        Inl e \<Rightarrow> \<lparr>city = JStr ''Unknown'', state = JStr []\<rparr>
      | Inr data \<Rightarrow>
          if data = JNull \<or> data = JUndefined then \<lparr>city = JStr ''Unknown'', state = JStr []\<rparr>
          else \<lparr>city = first_non_empty
                        [field data ''city'', field data ''locality'',
                         field data ''principalSubdivision'']
                        (JStr ''Unknown Location''),
                state = first_non_empty
                         [field data ''principalSubdivision'', field data ''countryName'']
                         (JStr [])\<rparr>)"
  by (auto simp: getAddressFromCoords_def city_of_def state_of_def or_else_def
        first_non_empty_def get_prop_field split: sum.splits)

text \<open>
  The policy at work: a body with an empty city and a locality gives the locality, with the
  country as region; a rejected request gives \<^verbatim>\<open>Unknown\<close>.
\<close>

theorem getAddressFromCoords_policy_witness:
  "getAddressFromCoords
     (Response True (Some (JObj [(''city'', JStr []), (''locality'', JStr ''Whitefield''),
                                 (''countryName'', JStr ''India'')])))
     = \<lparr>city = JStr ''Whitefield'', state = JStr ''India''\<rparr>
   \<and> getAddressFromCoords FetchRejected = \<lparr>city = JStr ''Unknown'', state = JStr []\<rparr>"
  using getAddressFromCoords_policy
          [of "Response True (Some (JObj [(''city'', JStr []), (''locality'', JStr ''Whitefield''),
                                          (''countryName'', JStr ''India'')]))"]
        getAddressFromCoords_policy [of FetchRejected]
  by (simp add: json_def field_def first_non_empty_def)

text \<open>
  C4, as amended. When locality resolution throws, the city is \<^verbatim>\<open>Unknown\<close>: the
  request is rejected, the body does not parse, or the body is \<^verbatim>\<open>null\<close> (or
  \<^verbatim>\<open>undefined\<close>), so that reading its first field throws. When the geocoder answers
  with any other body and none of its three names is usable, the city is
  \<^verbatim>\<open>Unknown Location\<close>, which is a different value.
\<close>

theorem unresolved_city_values:
  "(json r1 = Inl e \<or> json r1 = Inr JNull \<or> json r1 = Inr JUndefined
      \<longrightarrow> city (getAddressFromCoords r1) = JStr ''Unknown'')
   \<and> (json r2 = Inr data \<and> data \<noteq> JNull \<and> data \<noteq> JUndefined
        \<and> \<not> truthy (field data ''city'') \<and> \<not> truthy (field data ''locality'')
        \<and> \<not> truthy (field data ''principalSubdivision'')
      \<longrightarrow> city (getAddressFromCoords r2) = JStr ''Unknown Location''
          \<and> city (getAddressFromCoords r2) \<noteq> JStr ''Unknown'')"
proof (intro conjI impI)
  assume "json r1 = Inl e \<or> json r1 = Inr JNull \<or> json r1 = Inr JUndefined"
  then show "city (getAddressFromCoords r1) = JStr ''Unknown''"
    by (auto simp: getAddressFromCoords_def city_of_def or_else_def)
next
  assume a: "json r2 = Inr data \<and> data \<noteq> JNull \<and> data \<noteq> JUndefined
        \<and> \<not> truthy (field data ''city'') \<and> \<not> truthy (field data ''locality'')
        \<and> \<not> truthy (field data ''principalSubdivision'')"
  then show "city (getAddressFromCoords r2) = JStr ''Unknown Location''"
    by (auto simp: getAddressFromCoords_def city_of_def state_of_def or_else_def get_prop_field
          split: sum.splits)
  then show "city (getAddressFromCoords r2) \<noteq> JStr ''Unknown''"
    by simp
qed

text \<open>
  The three ways at work: a rejected request and a \<^verbatim>\<open>null\<close> body give
  \<^verbatim>\<open>Unknown\<close>, the answer at sea gives \<^verbatim>\<open>Unknown Location\<close>.
\<close>

theorem unresolved_city_values_witness:
  "json FetchRejected = Inl FetchError
   \<and> city (getAddressFromCoords FetchRejected) = JStr ''Unknown''
   \<and> json null_body = Inr JNull
   \<and> city (getAddressFromCoords null_body) = JStr ''Unknown''
   \<and> json at_sea = Inr (JObj [(''city'', JStr []), (''locality'', JStr []),
                             (''principalSubdivision'', JStr []), (''countryName'', JStr [])])
   \<and> city (getAddressFromCoords at_sea) = JStr ''Unknown Location''"
proof -
  let ?sea = "JObj [(''city'', JStr []), (''locality'', JStr []),
                    (''principalSubdivision'', JStr []), (''countryName'', JStr [])]"
  have rejected: "json FetchRejected = Inl FetchError"
    by (simp add: json_def)
  have null: "json null_body = Inr JNull"
    by (simp add: json_def null_body_def)
  have sea: "json at_sea = Inr ?sea"
    by (simp add: json_def at_sea_def)
  have empty: "?sea \<noteq> JNull \<and> ?sea \<noteq> JUndefined
        \<and> \<not> truthy (field ?sea ''city'') \<and> \<not> truthy (field ?sea ''locality'')
        \<and> \<not> truthy (field ?sea ''principalSubdivision'')"
    by (simp add: field_def)
  from unresolved_city_values [of FetchRejected FetchError at_sea ?sea] rejected sea empty
  have "city (getAddressFromCoords FetchRejected) = JStr ''Unknown''
        \<and> city (getAddressFromCoords at_sea) = JStr ''Unknown Location''"
    by blast
  moreover
  from unresolved_city_values [of null_body FetchError at_sea ?sea] null
  have "city (getAddressFromCoords null_body) = JStr ''Unknown''"
    by blast
  ultimately show ?thesis
    using rejected null sea by blast
qed

text \<open>
  C4 as stated fails: for the answer at sea, which has no usable name, the city is not
  \<^verbatim>\<open>Unknown\<close>.
\<close>

theorem no_usable_name_city:
  "city (getAddressFromCoords at_sea) \<noteq> JStr ''Unknown''"
  by (simp add: getAddressFromCoords_def at_sea_def json_def city_of_def state_of_def or_else_def)

section \<open>Claims about the location pipeline\<close>

text \<open>
  C3, as amended. Whenever locality resolution yields the city \<^verbatim>\<open>Unknown\<close>,
  \<^verbatim>\<open>fetchLocalInsights\<close> sends the geocoding request and nothing else, so the insights
  endpoint is not called in the whole attempt; it stops with the status
  \<^verbatim>\<open>Could not determine city name.\<close>, and leaves the error and the stored insights as they
  were.
\<close>

theorem unknown_city_skips_insights:
  assumes "city (getAddressFromCoords (geocode_response env)) = JStr ''Unknown''"
  shows "requests (finish (fetchLocalInsights lat lon env t s))
           = requests s @ [ReverseGeocode lat lon]
     \<and> locationStatus (finish (fetchLocalInsights lat lon env t s))
           = ''Could not determine city name.''
     \<and> locationError (finish (fetchLocalInsights lat lon env t s)) = locationError s
     \<and> localInsights (finish (fetchLocalInsights lat lon env t s)) = localInsights s
     \<and> insights_calls (requests (resolve env t s)) = insights_calls (requests s)"
  using assms
  by (auto simp: finish_fetchLocalInsights resolve_eq usable_def Let_def insights_calls_def
        ip_failed_def locating_def split: option.splits device.splits)

theorem unknown_city_skips_insights_witness:
  "city (getAddressFromCoords (geocode_response (bengaluru\<lparr>geocode_response := FetchRejected\<rparr>)))
     = JStr ''Unknown''
   \<and> locationStatus (finish (fetchLocalInsights (JNum 12.9716) (JNum 77.5946)
                  (bengaluru\<lparr>geocode_response := FetchRejected\<rparr>) 0
                  fresh))
       = ''Could not determine city name.''
   \<and> insights_calls (requests (resolve (bengaluru\<lparr>geocode_response := FetchRejected\<rparr>) 0
                  fresh))
       = insights_calls (requests fresh)
   \<and> insights_calls (requests fresh) = 0"
proof -
  have unknown:
    "city (getAddressFromCoords (geocode_response (bengaluru\<lparr>geocode_response := FetchRejected\<rparr>)))
       = JStr ''Unknown''"
    by (simp add: getAddressFromCoords_def json_def)
  have none: "insights_calls (requests fresh) = 0"
    by (simp add: fresh_def initial_def insights_calls_def)
  from unknown_city_skips_insights
         [OF unknown, of "JNum 12.9716" "JNum 77.5946" 0 fresh]
       unknown none
  show ?thesis
    by auto
qed

text \<open>
  C3 as stated fails in the status it names: with a geocoder that cannot be reached the
  city is \<^verbatim>\<open>Unknown\<close>, and the attempt does not end in the status
  \<^verbatim>\<open>Could not determine locality\<close>.
\<close>

theorem unknown_city_status_text:
  "city (getAddressFromCoords (geocode_response (bengaluru\<lparr>geocode_response := FetchRejected\<rparr>)))
     = JStr ''Unknown''
   \<and> locationStatus (resolve (bengaluru\<lparr>geocode_response := FetchRejected\<rparr>) 0
        fresh) \<noteq> ''Could not determine locality''"
  by (simp add: resolve_eq finish_fetchLocalInsights bengaluru_def obtained_position_def
        network_position_def json_def field_def getAddressFromCoords_def usable_def)




text \<open>
  C6, as amended. When the device gives no position and the address lookup gives none
  either, the attempt ends with the error
  \<^verbatim>\<open>Automatic location failed. Please click 'Retry Location'.\<close> and the status
  \<^verbatim>\<open>Location Unknown\<close>, the stored insights untouched. An analysis run leaves the error
  in place, and the next call of \<^verbatim>\<open>locateUser\<close> clears it.
\<close>

theorem network_failure_error:
  assumes "device env = NoGeolocation \<or> device env = PositionError"
    and "network_position (ip_response env) = None"
  shows "locationError (resolve env t s) =
           Some (''Automatic location failed. Please click '' @ [CHR 0x27] @ ''Retry Location''
                 @ [CHR 0x27] @ ''.'')
     \<and> locationStatus (resolve env t s) = ''Location Unknown''
     \<and> localInsights (resolve env t s) = localInsights s
     \<and> locationError (run ai t' (resolve env t s)) = locationError (resolve env t s)
     \<and> locationError (snd (locateUser env' t' (resolve env t s))) = None"
  using assms
  by (auto simp: resolve_eq obtained_position_def run_keeps_location
        locating_def ip_failed_def locateUser_clears split: option.splits device.splits)

theorem network_failure_error_witness:
  "device (bengaluru\<lparr>ip_response := FetchRejected\<rparr>) = PositionError
   \<and> network_position (ip_response (bengaluru\<lparr>ip_response := FetchRejected\<rparr>)) = None
   \<and> locationStatus (resolve (bengaluru\<lparr>ip_response := FetchRejected\<rparr>) 0
        fresh) = ''Location Unknown''
   \<and> locationError (run slow_service 6000
        (resolve (bengaluru\<lparr>ip_response := FetchRejected\<rparr>) 0 fresh))
       = locationError (resolve (bengaluru\<lparr>ip_response := FetchRejected\<rparr>) 0 fresh)
   \<and> locationError (snd (locateUser bengaluru 6000
        (resolve (bengaluru\<lparr>ip_response := FetchRejected\<rparr>) 0
           fresh))) = None"
proof -
  have dev: "device (bengaluru\<lparr>ip_response := FetchRejected\<rparr>) = PositionError"
    by (simp add: bengaluru_def)
  have pos: "network_position (ip_response (bengaluru\<lparr>ip_response := FetchRejected\<rparr>)) = None"
    by (simp add: network_position_def json_def)
  from dev have "device (bengaluru\<lparr>ip_response := FetchRejected\<rparr>) = NoGeolocation
      \<or> device (bengaluru\<lparr>ip_response := FetchRejected\<rparr>) = PositionError"
    by simp
  from network_failure_error
         [OF this pos, of 0 fresh slow_service 6000 bengaluru]
       dev pos
  show ?thesis
    by auto
qed

text \<open>
  C6 as stated fails in the message it names: when the address lookup cannot be reached
  after the device has failed, the error is not
  \<^verbatim>\<open>Automatic location failed. Please retry.\<close>
\<close>

theorem network_failure_message_text:
  "device (bengaluru\<lparr>ip_response := FetchRejected\<rparr>) = PositionError
   \<and> network_position (ip_response (bengaluru\<lparr>ip_response := FetchRejected\<rparr>)) = None
   \<and> locationError (resolve (bengaluru\<lparr>ip_response := FetchRejected\<rparr>) 0
        fresh) \<noteq> Some ''Automatic location failed. Please retry.''"
  by (simp add: resolve_eq bengaluru_def obtained_position_def
        network_position_def json_def ip_failed_def locating_def)

text \<open>
  C7. When an attempt has a position and a usable city, so that the insights endpoint is
  called, and that request fails (the request is rejected, the response is not a
  success, or its body does not parse), the attempt ends with the error
  \<^verbatim>\<open>Failed to fetch local insights.\<close> and the insights stored before are unchanged.
\<close>

theorem insights_failure_keeps_insights:
  assumes "obtained_position env = Some (lat, lon)"
    and "usable (city (getAddressFromCoords (geocode_response env)))"
    and "insights_response env = FetchRejected \<or>
         (\<exists>body. insights_response env = Response False body) \<or>
         (\<exists>ok. insights_response env = Response ok None)"
  shows "locationError (resolve env t s) = Some ''Failed to fetch local insights.''
     \<and> locationStatus (resolve env t s) = ''Data Unavailable''
     \<and> localInsights (resolve env t s) = localInsights s"
  using assms
  by (auto simp: finish_fetchLocalInsights resolve_eq Let_def insights_data_def
        locating_def insights_failed_def split: option.splits device.splits)

theorem insights_failure_keeps_insights_witness:
  "obtained_position (bengaluru\<lparr>insights_response := Response False None\<rparr>)
     = Some (JNum 12.9716, JNum 77.5946)
   \<and> usable (city (getAddressFromCoords
        (geocode_response (bengaluru\<lparr>insights_response := Response False None\<rparr>))))
   \<and> locationError (resolve (bengaluru\<lparr>insights_response := Response False None\<rparr>) 0
        (fresh\<lparr>localInsights := JStr ''old''\<rparr>))
       = Some ''Failed to fetch local insights.''
   \<and> localInsights (resolve (bengaluru\<lparr>insights_response := Response False None\<rparr>) 0
        (fresh\<lparr>localInsights := JStr ''old''\<rparr>))
       = localInsights (fresh\<lparr>localInsights := JStr ''old''\<rparr>)
   \<and> localInsights (fresh\<lparr>localInsights := JStr ''old''\<rparr>)
       = JStr ''old''"
proof -
  have pos: "obtained_position (bengaluru\<lparr>insights_response := Response False None\<rparr>)
               = Some (JNum 12.9716, JNum 77.5946)"
    by (simp add: bengaluru_def obtained_position_def network_position_def json_def field_def)
  have ok: "usable (city (getAddressFromCoords
              (geocode_response (bengaluru\<lparr>insights_response := Response False None\<rparr>))))"
    by (simp add: bengaluru_def usable_def getAddressFromCoords_def json_def city_of_def
          state_of_def or_else_def)
  have failed:
    "insights_response (bengaluru\<lparr>insights_response := Response False None\<rparr>) = FetchRejected
     \<or> (\<exists>body. insights_response (bengaluru\<lparr>insights_response := Response False None\<rparr>)
                 = Response False body)
     \<or> (\<exists>ok. insights_response (bengaluru\<lparr>insights_response := Response False None\<rparr>)
               = Response ok None)"
    by simp
  have old: "localInsights (fresh\<lparr>localInsights := JStr ''old''\<rparr>)
               = JStr ''old''"
    by simp
  from insights_failure_keeps_insights
         [OF pos ok failed, of 0 "fresh\<lparr>localInsights := JStr ''old''\<rparr>"]
       pos ok old
  show ?thesis
    by auto
qed

text \<open>
  C10. When the address lookup answers with a latitude or a longitude that is 0, or is
  any other value the language takes for false, \<^verbatim>\<open>fetchIpLocation\<close> takes its failure
  path although the coordinates are there: it calls nothing further and sets the error of
  a failed automatic location.
\<close>

theorem zero_coordinate_rejected:
  assumes "json (ip_response env) = Inr data" and "data \<noteq> JNull" and "data \<noteq> JUndefined"
    and "field data ''latitude'' = JNum 0 \<or> field data ''longitude'' = JNum 0 \<or>
         \<not> truthy (field data ''latitude'') \<or> \<not> truthy (field data ''longitude'')"
  shows "fetchIpLocation_fetched env t s = ([], ip_failed s)
     \<and> (device env = NoGeolocation \<or> device env = PositionError \<longrightarrow>
          resolve env t s = ip_failed (locating env s)
          \<and> requests (resolve env t s) = requests s @ [IpLookup])"
  using assms
  by (auto simp: fetchIpLocation_fetched_eq resolve_eq obtained_position_def
        network_position_def ip_failed_def locating_def)

theorem zero_coordinate_rejected_witness:
  "json (ip_response (bengaluru\<lparr>ip_response := on_equator\<rparr>))
     = Inr (JObj [(''latitude'', JNum 0), (''longitude'', JNum 36.8219)])
   \<and> field (JObj [(''latitude'', JNum 0), (''longitude'', JNum 36.8219)]) ''latitude'' = JNum 0
   \<and> device (bengaluru\<lparr>ip_response := on_equator\<rparr>) = PositionError
   \<and> fetchIpLocation_fetched (bengaluru\<lparr>ip_response := on_equator\<rparr>) 5120
        fresh = ([], ip_failed fresh)
   \<and> requests (resolve (bengaluru\<lparr>ip_response := on_equator\<rparr>) 0
        fresh) = requests fresh @ [IpLookup]"
proof -
  have body: "json (ip_response (bengaluru\<lparr>ip_response := on_equator\<rparr>))
                = Inr (JObj [(''latitude'', JNum 0), (''longitude'', JNum 36.8219)])"
    by (simp add: on_equator_def json_def)
  have zero: "field (JObj [(''latitude'', JNum 0), (''longitude'', JNum 36.8219)]) ''latitude''
                = JNum 0"
    by (simp add: field_def)
  have dev: "device (bengaluru\<lparr>ip_response := on_equator\<rparr>) = PositionError"
    by (simp add: bengaluru_def)
  from zero_coordinate_rejected
         [OF body, of 5120 fresh] zero dev
  have "fetchIpLocation_fetched (bengaluru\<lparr>ip_response := on_equator\<rparr>) 5120
          fresh = ([], ip_failed fresh)"
    by auto
  moreover
  from zero_coordinate_rejected
         [OF body, of 0 fresh] zero dev
  have "requests (resolve (bengaluru\<lparr>ip_response := on_equator\<rparr>) 0
          fresh) = requests fresh @ [IpLookup]"
    by auto
  ultimately show ?thesis
    using body zero dev by auto
qed

section \<open>Claims about the analysis run\<close>

text \<open>
  C1, as amended. For a run started by \<^verbatim>\<open>runAnalysis\<close> with nothing else pending, in
  which both calls of the service resolve and the second resolves 1300 milliseconds after
  the start or later, the log is exactly the five lines, in order: the first at the start,
  the next three 500, 900 and 1300 milliseconds later, and the last when the second call
  resolves. In every run started so, whatever the service does, the last line is in the
  log only if both calls have resolved, and it bears the time at which the second did.
\<close>

theorem runAnalysis_log_sequence:
  assumes "forecast ai = Some a" and "regional ai = Some rs"
    and "1300 \<le> forecast_delay ai + regional_delay ai"
  shows "logs (run ai t s) =
           [(t, Line ''Initializing AI Agent...''),
            (t + 500, Line ''Fetching real-time inventory data...''),
            (t + 900, Line ''Aggregating community symptom reports...''),
            (t + 1300, Line ''Running LLaMA-3 reasoning model...''),
            (t + forecast_delay ai + regional_delay ai,
             Line ''Analysis complete. Insights generated.'')]
     \<and> (\<forall>ai' t'. (t', Line ''Analysis complete. Insights generated.'')
                     \<in> set (logs (run ai' t s)) \<longrightarrow>
           forecast ai' \<noteq> None \<and> regional ai' \<noteq> None
           \<and> t' = t + forecast_delay ai' + regional_delay ai')"
proof
  show "logs (run ai t s) =
           [(t, Line ''Initializing AI Agent...''),
            (t + 500, Line ''Fetching real-time inventory data...''),
            (t + 900, Line ''Aggregating community symptom reports...''),
            (t + 1300, Line ''Running LLaMA-3 reasoning model...''),
            (t + forecast_delay ai + regional_delay ai,
             Line ''Analysis complete. Insights generated.'')]"
    using assms by (auto simp: run_defs)
  show "\<forall>ai' t'. (t', Line ''Analysis complete. Insights generated.'')
                     \<in> set (logs (run ai' t s)) \<longrightarrow>
           forecast ai' \<noteq> None \<and> regional ai' \<noteq> None
           \<and> t' = t + forecast_delay ai' + regional_delay ai'"
    by (auto simp: run_defs split: option.splits)
qed

theorem runAnalysis_log_sequence_witness:
  "forecast slow_service = Some 470 \<and> regional slow_service = Some [1, 2]
   \<and> 1300 \<le> forecast_delay slow_service + regional_delay slow_service
   \<and> logs (run slow_service 0 fresh) =
           [(0, Line ''Initializing AI Agent...''),
            (500, Line ''Fetching real-time inventory data...''),
            (900, Line ''Aggregating community symptom reports...''),
            (1300, Line ''Running LLaMA-3 reasoning model...''),
            (3000, Line ''Analysis complete. Insights generated.'')]
   \<and> (3000, Line ''Analysis complete. Insights generated.'') \<in> set (logs (run slow_service 0 fresh))
   \<and> forecast slow_service \<noteq> None \<and> regional slow_service \<noteq> None
   \<and> 3000 = 0 + forecast_delay slow_service + regional_delay slow_service"
proof -
  have f: "forecast slow_service = Some 470" and r: "regional slow_service = Some [1, 2]"
    and d: "1300 \<le> forecast_delay slow_service + regional_delay slow_service"
    and e: "forecast_delay slow_service + regional_delay slow_service = 3000"
    by (simp_all add: slow_service_def)
  note w = runAnalysis_log_sequence [OF f r d, of 0 fresh]
  from w [THEN conjunct1] e
  have five: "logs (run slow_service 0 fresh) =
           [(0, Line ''Initializing AI Agent...''),
            (500, Line ''Fetching real-time inventory data...''),
            (900, Line ''Aggregating community symptom reports...''),
            (1300, Line ''Running LLaMA-3 reasoning model...''),
            (3000, Line ''Analysis complete. Insights generated.'')]"
    by simp
  then have last:
    "(3000, Line ''Analysis complete. Insights generated.'') \<in> set (logs (run slow_service 0 fresh))"
    by simp
  from w [THEN conjunct2, rule_format, OF last]
  have "forecast slow_service \<noteq> None \<and> regional slow_service \<noteq> None
        \<and> 3000 = 0 + forecast_delay slow_service + regional_delay slow_service" .
  with f r d five last show ?thesis
    by blast
qed

text \<open>
  C1 as stated fails: with a service that answers within 300 milliseconds, the last line
  comes second, before the three timed lines.
\<close>

theorem runAnalysis_log_early_completion:
  "map snd (logs (run fast_service 0 fresh)) =
     [Line ''Initializing AI Agent...'',
      Line ''Analysis complete. Insights generated.'',
      Line ''Fetching real-time inventory data...'',
      Line ''Aggregating community symptom reports...'',
      Line ''Running LLaMA-3 reasoning model...'']"
  by (simp add: run_defs fast_service_def)

text \<open>
  C8, as amended. A call of \<^verbatim>\<open>runAnalysis\<close> empties the log and writes its first line,
  whatever was there. When a second run is started while the first is pending and both
  resolve, nothing discards the older run: the forecast and the regions left in the state
  are those of the run whose second call resolved last, be it the first run or the second.
\<close>

theorem rerun_last_completion_wins:
  assumes "t1 \<le> t2"
    and "forecast ai1 = Some a1" and "regional ai1 = Some rs1"
    and "forecast ai2 = Some a2" and "regional ai2 = Some rs2"
  shows "logs (snd (runAnalysis ai2 t2 s')) = [(t2, Line ''Initializing AI Agent...'')]
     \<and> (t2 + forecast_delay ai2 + regional_delay ai2
          < t1 + forecast_delay ai1 + regional_delay ai1 \<longrightarrow>
        analysis (run_loop [(t1, RunAnalysis ai1), (t2, RunAnalysis ai2)] s) = Some a1
        \<and> regions (run_loop [(t1, RunAnalysis ai1), (t2, RunAnalysis ai2)] s) = rs1)
     \<and> (t1 + forecast_delay ai1 + regional_delay ai1
          < t2 + forecast_delay ai2 + regional_delay ai2 \<longrightarrow>
        analysis (run_loop [(t1, RunAnalysis ai1), (t2, RunAnalysis ai2)] s) = Some a2
        \<and> regions (run_loop [(t1, RunAnalysis ai1), (t2, RunAnalysis ai2)] s) = rs2)"
proof -
  let ?q = "[(t1, RunAnalysis ai1), (t2, RunAnalysis ai2)]"
  let ?c1 = "t1 + forecast_delay ai1 + regional_delay ai1"
  let ?c2 = "t2 + forecast_delay ai2 + regional_delay ai2"
  have first_line: "logs (snd (runAnalysis ai2 t2 s')) = [(t2, Line ''Initializing AI Agent...'')]"
    by (simp add: runAnalysis_def addLog_def)
  have srt: "sorted (map fst ?q)"
    using assms(1) by simp
  have pend: "pending ?q = {(?c1, a1, rs1), (?c2, a2, rs2)}"
    using assms by (auto simp: pending_def)
  have older: "analysis (run_loop ?q s) = Some a1 \<and> regions (run_loop ?q s) = rs1"
    if "?c2 < ?c1"
    using last_completion_wins [OF srt, of ?c1 a1 rs1 s] that by (simp add: pend)
  have newer: "analysis (run_loop ?q s) = Some a2 \<and> regions (run_loop ?q s) = rs2"
    if "?c1 < ?c2"
    using last_completion_wins [OF srt, of ?c2 a2 rs2 s] that by (simp add: pend)
  from first_line older newer show ?thesis
    by blast
qed

theorem rerun_last_completion_wins_witness:
  "(0::nat) \<le> 100
   \<and> forecast slow_service = Some 470 \<and> regional slow_service = Some [1, 2]
   \<and> forecast fast_service = Some 300 \<and> regional fast_service = Some [3]
   \<and> 100 + forecast_delay fast_service + regional_delay fast_service
        < 0 + forecast_delay slow_service + regional_delay slow_service
   \<and> logs (snd (runAnalysis fast_service 100 (run slow_service 0 fresh)))
        = [(100, Line ''Initializing AI Agent...'')]
   \<and> analysis (run_loop [(0, RunAnalysis slow_service), (100, RunAnalysis fast_service)] fresh)
        = Some 470
   \<and> 0 + forecast_delay fast_service + regional_delay fast_service
        < 100 + forecast_delay slow_service + regional_delay slow_service
   \<and> analysis (run_loop [(0, RunAnalysis fast_service), (100, RunAnalysis slow_service)] fresh)
        = Some 470"
proof -
  have t: "(0::nat) \<le> 100"
    by simp
  have f1: "forecast slow_service = Some 470" and r1: "regional slow_service = Some [1, 2]"
    by (simp_all add: slow_service_def)
  have f2: "forecast fast_service = Some 300" and r2: "regional fast_service = Some [3]"
    by (simp_all add: fast_service_def)
  have late: "100 + forecast_delay fast_service + regional_delay fast_service
                < 0 + forecast_delay slow_service + regional_delay slow_service"
    and early: "0 + forecast_delay fast_service + regional_delay fast_service
                < 100 + forecast_delay slow_service + regional_delay slow_service"
    by (simp_all add: slow_service_def fast_service_def)
  from rerun_last_completion_wins [OF t f1 r1 f2 r2, of "run slow_service 0 fresh" fresh]
       rerun_last_completion_wins [OF t f2 r2 f1 r1, of fresh fresh]
       t f1 r1 f2 r2 late early
  show ?thesis
    by blast
qed

text \<open>
  C8 as stated fails: the first run, whose forecast of 470 resolves 2000 milliseconds after
  its start, is followed 100 milliseconds after its start by a second run, whose forecast
  of 300 is stored 300 milliseconds later; when the first run ends it stores 470 over it.
\<close>

theorem stale_run_overwrites:
  "analysis (run fast_service 100 fresh) = Some 300
   \<and> analysis (run_loop [(0, RunAnalysis slow_service), (100, RunAnalysis fast_service)] fresh)
       = Some 470"
  by (simp add: run_defs slow_service_def fast_service_def)

end
